theory Spec2Isabelle
  imports Complex_Main "HOL-Library.Multiset"
begin

section \<open>Python preliminaries\<close>

text \<open>
  Strings are lists of 8-bit characters; \<open>len\<close> is \<open>length\<close>.  Python floats are
  modelled by the real numbers, so every statement about a score is a statement about
  the exact value of the expression the code evaluates, not about its rounding.
  Exceptions are values of \<open>py_error\<close>; a function that may raise returns
  \<open>py_error + 'a\<close>.
\<close>

datatype py_error =
    ValueError string
  | TypeError string
  | IndexError string
  | ExternalError string

text \<open>\<open>str(e)\<close> of an exception: its message.\<close>

fun error_str :: "py_error \<Rightarrow> string" where
  "error_str (ValueError m) = m"
| "error_str (TypeError m) = m"
| "error_str (IndexError m) = m"
| "error_str (ExternalError m) = m"

text \<open>\<open>str.isspace\<close> on one character (the whitespace of the Latin-1 range).\<close>

definition is_space :: "char \<Rightarrow> bool" where
  "is_space c \<longleftrightarrow>
     (let n = of_char c :: nat in (9 \<le> n \<and> n \<le> 13) \<or> (28 \<le> n \<and> n \<le> 32) \<or> n = 133 \<or> n = 160)"

text \<open>\<open>s.strip()\<close>: leading and trailing whitespace removed.\<close>

definition strip :: "string \<Rightarrow> string" where
  "strip s = rev (dropWhile is_space (rev (dropWhile is_space s)))"

text \<open>\<open>str(n)\<close> for a non-negative integer, as an f-string prints it.\<close>

definition digit_char :: "nat \<Rightarrow> char" where
  "digit_char d = char_of (48 + d)"

fun str_nat :: "nat \<Rightarrow> string" where
  "str_nat n = (if n < 10 then [digit_char n] else str_nat (n div 10) @ [digit_char (n mod 10)])"

declare str_nat.simps [simp del]

text \<open>The slice \<open>xs[:k]\<close>, for any integer \<open>k\<close>: a negative \<open>k\<close> counts from the end.\<close>

definition slice_to :: "int \<Rightarrow> 'a list \<Rightarrow> 'a list" where
  "slice_to k xs = (if 0 \<le> k then take (nat k) xs else take (length xs - nat (- k)) xs)"

text \<open>\<open>enumerate(xs, start)\<close>.\<close>

definition enumerate_from :: "nat \<Rightarrow> 'a list \<Rightarrow> (nat \<times> 'a) list" where
  "enumerate_from start xs = zip [start ..< start + length xs] xs"

text \<open>
  \<open>sorted(xs, key=f, reverse=True)\<close>: Python's sort is stable, also when reversed, so
  elements with equal keys keep their input order.  An insertion sort on the negated
  key does exactly that.
\<close>

definition sorted_reverse :: "('a \<Rightarrow> real) \<Rightarrow> 'a list \<Rightarrow> 'a list" where
  "sorted_reverse f xs = sort_key (\<lambda>x. - f x) xs"

section \<open>Python floats\<close>

text \<open>
  A Python float is an IEEE 754 binary64 number.  \<open>Finite m e\<close> is the finite float
  with the value \<open>m * 2 ^ e\<close> (\<open>\<bar>m\<bar> \<le> 2 ^ 53\<close>, \<open>-1074 \<le> e \<le> 971\<close>; a rounding may
  produce the mantissa \<open>2 ^ 53\<close>, which is left as it is); the sign of a zero is not
  kept, as nothing below depends on it.  Addition is exact addition followed
  by rounding to 53 significant bits, ties to even, and overflow to an infinity once
  the rounded value reaches \<open>2 ^ 1024\<close>.  The exact sum of two floats is a multiple
  of \<open>2 ^ (-1074)\<close>, so a sum in the subnormal range is exact and needs no rounding.
\<close>

datatype pyfloat = Finite int int | PosInf | NegInf | NaN

fun bit_length :: "nat \<Rightarrow> nat" where
  "bit_length n = (if n = 0 then 0 else Suc (bit_length (n div 2)))"

declare bit_length.simps [simp del]

definition round_to_even :: "nat \<Rightarrow> nat \<Rightarrow> nat" where
  "round_to_even a s =
     (if s = 0 then a
      else (let q = a div 2 ^ s; r = a mod 2 ^ s; half = 2 ^ (s - 1)
            in if r > half \<or> (r = half \<and> odd q) then q + 1 else q))"

definition round_float :: "int \<Rightarrow> int \<Rightarrow> pyfloat" where
  "round_float m e =
     (let a = nat \<bar>m\<bar>;
          s = bit_length a - 53;
          q = round_to_even a s
      in if int (bit_length q) + e + int s > 1024 then (if m < 0 then NegInf else PosInf)
         else Finite (sgn m * int q) (e + int s))"

fun fadd :: "pyfloat \<Rightarrow> pyfloat \<Rightarrow> pyfloat" where
  "fadd (Finite m1 e1) (Finite m2 e2) =
     (let e = min e1 e2 in round_float (m1 * 2 ^ nat (e1 - e) + m2 * 2 ^ nat (e2 - e)) e)"
| "fadd NaN y = NaN"
| "fadd x NaN = NaN"
| "fadd PosInf NegInf = NaN"
| "fadd NegInf PosInf = NaN"
| "fadd PosInf y = PosInf"
| "fadd x PosInf = PosInf"
| "fadd NegInf y = NegInf"
| "fadd x NegInf = NegInf"

fun fneg :: "pyfloat \<Rightarrow> pyfloat" where
  "fneg (Finite m e) = Finite (- m) e"
| "fneg PosInf = NegInf"
| "fneg NegInf = PosInf"
| "fneg NaN = NaN"

definition fsub :: "pyfloat \<Rightarrow> pyfloat \<Rightarrow> pyfloat" where
  "fsub x y = fadd x (fneg y)"

fun fabs :: "pyfloat \<Rightarrow> pyfloat" where
  "fabs (Finite m e) = Finite \<bar>m\<bar> e"
| "fabs PosInf = PosInf"
| "fabs NegInf = PosInf"
| "fabs NaN = NaN"

text \<open>\<open>x > y\<close>; every comparison with a NaN is false.\<close>

fun fgt :: "pyfloat \<Rightarrow> pyfloat \<Rightarrow> bool" where
  "fgt (Finite m1 e1) (Finite m2 e2) =
     (let e = min e1 e2 in m1 * 2 ^ nat (e1 - e) > m2 * 2 ^ nat (e2 - e))"
| "fgt NaN y = False"
| "fgt x NaN = False"
| "fgt PosInf PosInf = False"
| "fgt PosInf y = True"
| "fgt x PosInf = False"
| "fgt NegInf y = False"
| "fgt x NegInf = True"

text \<open>
  The weights of the hybrid search are finite floats, \<open>Weight m e\<close> with the value
  \<open>m * 2 ^ e\<close>: NaN and the infinities as weights are outside the model, because the
  scores that the fusion computes from the weights are modelled in the reals.
\<close>

datatype weight = Weight int int

fun of_weight :: "weight \<Rightarrow> pyfloat" where
  "of_weight (Weight m e) = Finite m e"

fun weight_val :: "weight \<Rightarrow> real" where
  "weight_val (Weight m e) =
     (if 0 \<le> e then of_int m * 2 ^ nat e else of_int m / 2 ^ nat (- e))"

text \<open>
  The float literals of the code: \<open>1.0\<close> and \<open>0.01\<close> in \<open>hybrid_search\<close>, \<open>0.7\<close> and
  \<open>0.3\<close> in the retrieval agent and as default weights, and \<open>0.2\<close> and \<open>0.31\<close> for the
  examples.  Each is the float nearest to the decimal (lemma \<open>float_literals\<close>).
\<close>

definition float_1_0 :: pyfloat where
  "float_1_0 = Finite 1 0"

definition float_0_01 :: pyfloat where
  "float_0_01 = Finite 5764607523034235 (- 59)"

definition float_0_7 :: weight where
  "float_0_7 = Weight 6305039478318694 (- 53)"

definition float_0_3 :: weight where
  "float_0_3 = Weight 5404319552844595 (- 54)"

definition float_0_2 :: weight where
  "float_0_2 = Weight 7205759403792794 (- 55)"

definition float_0_31 :: weight where
  "float_0_31 = Weight 5584463537939415 (- 54)"

section \<open>Chunking service (\<open>services/chunking_service.py\<close>)\<close>

text \<open>
  The document metadata handed to the chunker and the metadata dictionary of a chunk.
  \<open>total_chunks\<close> is \<open>None\<close> between the two passes of \<open>_chunk_with_pages\<close>.
\<close>

record doc_metadata =
  doc_id :: string
  filename :: string
  file_type :: string
  upload_timestamp :: string

record chunk_metadata = doc_metadata +
  chunk_index :: nat
  page_number :: "nat option"
  total_chunks :: "nat option"

record 'm chunk =
  chunk_id :: string
  content :: string
  metadata :: 'm

type_synonym doc_chunk = "chunk_metadata chunk"

definition make_chunk :: "doc_metadata \<Rightarrow> nat \<Rightarrow> nat option \<Rightarrow> nat option \<Rightarrow> string \<Rightarrow> doc_chunk" where
  "make_chunk md idx page tot chunk_text =
     \<lparr> chunk_id = doc_id md @ ''_chunk_'' @ str_nat idx,
       content = strip chunk_text,
       metadata = \<lparr> doc_id = doc_id md, filename = filename md, file_type = file_type md,
                    upload_timestamp = upload_timestamp md,
                    chunk_index = idx, page_number = page, total_chunks = tot \<rparr> \<rparr>"

text \<open>
  \<open>_chunk_plain_text\<close>.  The text splitter is the external
  \<open>RecursiveCharacterTextSplitter\<close>; its result \<open>split_text content\<close> is what the loop
  enumerates.  The index \<open>idx\<close> and the count \<open>len(text_chunks)\<close> are those of the
  splitter's list, taken before the minimum-length filter.
\<close>

definition chunk_plain_text :: "(string \<Rightarrow> string list) \<Rightarrow> string \<Rightarrow> doc_metadata \<Rightarrow> doc_chunk list" where
  "chunk_plain_text split_text cont md =
     (let text_chunks = split_text cont in
      concat (map (\<lambda>(idx, chunk_text).
                 if length (strip chunk_text) < 10 then []
                 else [make_chunk md idx None (Some (length text_chunks)) chunk_text])
              (enumerate_from 0 text_chunks)))"

text \<open>
  \<open>re.split(r'\[Page (\d+)\]\n', content)\<close>.  Python returns the list
  \<open>[head, num1, text1, num2, text2, ...]\<close>; the model returns the head and the pages
  as pairs, the number already read by \<open>int\<close> (the group \<open>\d+\<close> holds digits only).
  A marker is matched at the leftmost position where it occurs; \<open>\d+\<close> is greedy, and
  no shorter run of digits can match since \<open>]\<close> is not a digit.
\<close>

definition is_digit :: "char \<Rightarrow> bool" where
  "is_digit c \<longleftrightarrow> (let n = of_char c :: nat in 48 \<le> n \<and> n \<le> 57)"

definition int_of_digits :: "string \<Rightarrow> nat" where
  "int_of_digits ds = foldl (\<lambda>n c. 10 * n + (of_char c - 48)) 0 ds"

definition match_page_marker :: "string \<Rightarrow> (nat \<times> string) option" where
  "match_page_marker s =
     (if take 6 s = ''[Page '' then
        (let ds = takeWhile is_digit (drop 6 s); r = dropWhile is_digit (drop 6 s) in
         if ds \<noteq> [] \<and> take 2 r = [CHR '']'', CHR 0x0A]
         then Some (int_of_digits ds, drop 2 r) else None)
      else None)"

lemma match_page_marker_shorter:
  "match_page_marker s = Some (n, r) \<Longrightarrow> length r < length s"
proof -
  assume m: "match_page_marker s = Some (n, r)"
  let ?t = "dropWhile is_digit (drop 6 s)"
  from m have six: "take 6 s = ''[Page ''" and r: "r = drop 2 ?t"
    by (auto simp: match_page_marker_def Let_def split: if_splits)
  from six have "length (take 6 s) = 6" by simp
  then have "6 \<le> length s" by simp
  moreover have "length ?t \<le> length (drop 6 s)" by (rule length_dropWhile_le)
  ultimately show ?thesis using r by simp
qed

function re_split_pages :: "string \<Rightarrow> string \<times> (nat \<times> string) list" where
  "re_split_pages [] = ([], [])"
| "re_split_pages (c # cs) =
     (case match_page_marker (c # cs) of
        Some (n, r) \<Rightarrow> (case re_split_pages r of (t, ps) \<Rightarrow> ([], (n, t) # ps))
      | None \<Rightarrow> (case re_split_pages cs of (t, ps) \<Rightarrow> (c # t, ps)))"
  by pat_completeness auto
termination
  by (relation "measure length") (auto dest: match_page_marker_shorter)

text \<open>
  \<open>_chunk_with_pages\<close>.  The loop over \<open>range(1, len(sections), 2)\<close> visits the pages
  in turn (the head section is not read).  The inner loop threads the list built so
  far and the running \<open>chunk_index\<close>, which is advanced only when a chunk is kept.
\<close>

fun page_chunks_loop :: "doc_metadata \<Rightarrow> nat \<Rightarrow> string list \<Rightarrow> doc_chunk list \<times> nat \<Rightarrow> doc_chunk list \<times> nat" where
  "page_chunks_loop md page_num [] st = st"
| "page_chunks_loop md page_num (chunk_text # rest) (chunks, idx) =
     (if length (strip chunk_text) < 10 then page_chunks_loop md page_num rest (chunks, idx)
      else page_chunks_loop md page_num rest
             (chunks @ [make_chunk md idx (Some page_num) None chunk_text], idx + 1))"

fun pages_loop :: "(string \<Rightarrow> string list) \<Rightarrow> doc_metadata \<Rightarrow> (nat \<times> string) list \<Rightarrow> doc_chunk list \<times> nat \<Rightarrow> doc_chunk list \<times> nat" where
  "pages_loop split_text md [] st = st"
| "pages_loop split_text md ((page_num, raw) # rest) st =
     (let page_text = strip raw in
      if page_text = [] \<or> page_text = ''[No text content]'' then pages_loop split_text md rest st
      else pages_loop split_text md rest (page_chunks_loop md page_num (split_text page_text) st))"

definition set_total :: "nat \<Rightarrow> doc_chunk \<Rightarrow> doc_chunk" where
  "set_total n c = c\<lparr> metadata := (metadata c)\<lparr> total_chunks := Some n \<rparr> \<rparr>"

definition chunk_with_pages :: "(string \<Rightarrow> string list) \<Rightarrow> (nat \<times> string) list \<Rightarrow> doc_metadata \<Rightarrow> doc_chunk list" where
  "chunk_with_pages split_text pages md =
     (let chunks = fst (pages_loop split_text md pages ([], 0));
          n = length chunks
      in map (set_total n) chunks)"

text \<open>\<open>chunk_document\<close>: \<open>len(sections) > 1\<close> holds exactly when a page marker was found.\<close>

definition chunk_document :: "(string \<Rightarrow> string list) \<Rightarrow> string \<Rightarrow> doc_metadata \<Rightarrow> doc_chunk list" where
  "chunk_document split_text cont md =
     (case re_split_pages cont of
        (_, []) \<Rightarrow> chunk_plain_text split_text cont md
      | (_, p # ps) \<Rightarrow> chunk_with_pages split_text (p # ps) md)"

text \<open>
  \<open>merge_small_chunks\<close>.  The loop state is the list \<open>merged\<close>, the string \<open>buffer\<close>
  and \<open>buffer_metadata\<close> (\<open>None\<close> or a copy of a chunk's metadata).  \<open>if buffer\<close> tests
  the string for emptiness.  Reading \<open>buffer_metadata['doc_id']\<close> while it is \<open>None\<close>
  would raise \<open>TypeError\<close>, so flushing returns a sum.  Chunks are values here: the
  final loop, which in Python writes into the metadata dictionaries in place, returns
  the renumbered list.
\<close>

definition flush_buffer :: "doc_chunk list \<Rightarrow> string \<Rightarrow> chunk_metadata option \<Rightarrow> py_error + doc_chunk" where
  "flush_buffer merged buffer buffer_metadata =
     (case buffer_metadata of
        None \<Rightarrow> Inl (TypeError ''NoneType object is not subscriptable'')
      | Some m \<Rightarrow> Inr \<lparr> chunk_id = doc_id m @ ''_chunk_'' @ str_nat (length merged),
                        content = buffer, metadata = m \<rparr>)"

fun merge_loop :: "int \<Rightarrow> doc_chunk list \<Rightarrow> doc_chunk list \<times> string \<times> chunk_metadata option
    \<Rightarrow> py_error + (doc_chunk list \<times> string \<times> chunk_metadata option)" where
  "merge_loop min_size [] st = Inr st"
| "merge_loop min_size (c # rest) (merged, buffer, buffer_metadata) =
     (if int (length (content c)) < min_size then
        (if buffer \<noteq> [] then
           merge_loop min_size rest (merged, buffer @ '' '' @ content c, buffer_metadata)
         else merge_loop min_size rest (merged, content c, Some (metadata c)))
      else
        (if buffer \<noteq> [] then
           (case flush_buffer merged buffer buffer_metadata of
              Inl e \<Rightarrow> Inl e
            | Inr b \<Rightarrow> merge_loop min_size rest (merged @ [b] @ [c], [], None))
         else merge_loop min_size rest (merged @ [c], buffer, buffer_metadata)))"

definition renumber :: "doc_chunk list \<Rightarrow> doc_chunk list" where
  "renumber merged =
     map (\<lambda>(idx, c). c\<lparr> metadata := (metadata c)\<lparr> chunk_index := idx,
                                                     total_chunks := Some (length merged) \<rparr> \<rparr>)
         (enumerate_from 0 merged)"

definition merge_raw :: "int \<Rightarrow> doc_chunk list \<Rightarrow> py_error + doc_chunk list" where
  "merge_raw min_size chunks =
     (case merge_loop min_size chunks ([], [], None) of
        Inl e \<Rightarrow> Inl e
      | Inr (merged, buffer, buffer_metadata) \<Rightarrow>
          (if buffer \<noteq> [] \<and> buffer_metadata \<noteq> None then
             (case flush_buffer merged buffer buffer_metadata of
                Inl e \<Rightarrow> Inl e
              | Inr b \<Rightarrow> Inr (merged @ [b]))
           else Inr merged))"

definition merge_small_chunks :: "doc_chunk list \<Rightarrow> int \<Rightarrow> py_error + doc_chunk list" where
  "merge_small_chunks chunks min_size =
     (if chunks = [] then Inr []
      else (case merge_raw min_size chunks of
              Inl e \<Rightarrow> Inl e
            | Inr merged \<Rightarrow> Inr (renumber merged)))"

section \<open>Settings (\<open>config.py\<close>)\<close>

record settings =
  embedding_dimension :: int
  chunk_size :: int
  chunk_overlap :: int
  retrieval_top_k :: int
  reranking_top_k :: int

definition default_settings :: settings where
  "default_settings =
     \<lparr> embedding_dimension = 384, chunk_size = 512, chunk_overlap = 128,
       retrieval_top_k = 10, reranking_top_k = 5 \<rparr>"

section \<open>Embedding service (\<open>services/embedding_service.py\<close>)\<close>

text \<open>
  The sentence-transformer model is external.  \<open>encode\<close> stands for \<open>model.encode\<close> on
  one text and \<open>encode_batch\<close> for \<open>model.encode\<close> on a list of texts.  \<open>[0.0] * n\<close> is
  the empty list when \<open>n\<close> is negative, as \<open>replicate (nat n)\<close> is.
\<close>

definition is_blank :: "string \<Rightarrow> bool" where
  "is_blank t \<longleftrightarrow> t = [] \<or> strip t = []"

definition zero_vector :: "int \<Rightarrow> real list" where
  "zero_vector dimension = replicate (nat dimension) 0"

definition embed_text :: "(string \<Rightarrow> real list) \<Rightarrow> int \<Rightarrow> string \<Rightarrow> real list" where
  "embed_text encode dimension t = (if is_blank t then zero_vector dimension else encode t)"

definition embed_batch :: "(string list \<Rightarrow> real list list) \<Rightarrow> int \<Rightarrow> string list \<Rightarrow> real list list" where
  "embed_batch encode_batch dimension texts =
     (if texts = [] then []
      else
        (let valid = filter (\<lambda>(idx, t). \<not> is_blank t) (enumerate_from 0 texts);
             valid_texts = map snd valid;
             valid_indices = map fst valid
         in if valid_texts = [] then replicate (length texts) (zero_vector dimension)
            else
              (let embeddings = encode_batch valid_texts;
                   result = replicate (length texts) (zero_vector dimension)
               in foldl (\<lambda>res (idx, e). res[idx := e]) result (zip valid_indices embeddings))))"

text \<open>
  \<open>similarity\<close>.  \<open>np.dot\<close> of two one-dimensional arrays of different lengths raises
  \<open>ValueError\<close>, and it is evaluated before the norms are tested.
\<close>

definition dot :: "real list \<Rightarrow> real list \<Rightarrow> real" where
  "dot v1 v2 = sum_list (map (\<lambda>(a, b). a * b) (zip v1 v2))"

definition norm2 :: "real list \<Rightarrow> real" where
  "norm2 v = sqrt (sum_list (map (\<lambda>a. a * a) v))"

definition similarity :: "real list \<Rightarrow> real list \<Rightarrow> py_error + real" where
  "similarity embedding1 embedding2 =
     (if length embedding1 \<noteq> length embedding2 then Inl (ValueError ''shapes not aligned'')
      else
        (let dot_product = dot embedding1 embedding2;
             n1 = norm2 embedding1;
             n2 = norm2 embedding2
         in if n1 = 0 \<or> n2 = 0 then Inr 0 else Inr (dot_product / (n1 * n2))))"

section \<open>Hybrid search (\<open>services/hybrid_search.py\<close>)\<close>

text \<open>
  A retrieval hit is a dictionary with \<open>chunk_id\<close>, \<open>content\<close>, \<open>metadata\<close> and a score
  read with \<open>result.get('score', 0)\<close>, hence optional.  A fused result carries the
  fused \<open>score\<close>, both ranks (\<open>None\<close> when the chunk is absent from that list) and the
  raw scores (the keys \<open>dense_score\<close> and \<open>sparse_score\<close> exist only for the lists the
  chunk came from).
\<close>

record 'm hit = "'m chunk" +
  hit_score :: "real option"

record 'm fused = "'m chunk" +
  score :: real
  dense_rank :: "nat option"
  sparse_rank :: "nat option"
  dense_score :: "real option"
  sparse_score :: "real option"

definition get_score :: "'m hit \<Rightarrow> real" where
  "get_score r = (case hit_score r of Some x \<Rightarrow> x | None \<Rightarrow> 0)"

text \<open>
  \<open>fused_scores\<close> is a Python dictionary, which keeps insertion order: assigning to an
  existing key keeps the key's position, a new key goes to the end.  It is modelled
  as an association list from \<open>chunk_id\<close> to the fused result (the result holds its
  \<open>chunk_id\<close> from the start; the final comprehension only reads the values).
\<close>

fun dict_set :: "'k \<Rightarrow> 'v \<Rightarrow> ('k \<times> 'v) list \<Rightarrow> ('k \<times> 'v) list" where
  "dict_set k v [] = [(k, v)]"
| "dict_set k v (p # ps) = (if fst p = k then (k, v) # ps else p # dict_set k v ps)"

fun dict_get :: "('k \<times> 'v) list \<Rightarrow> 'k \<Rightarrow> 'v option" where
  "dict_get [] k = None"
| "dict_get (p # ps) k = (if fst p = k then Some (snd p) else dict_get ps k)"

definition dense_entry :: "real \<Rightarrow> nat \<Rightarrow> nat \<Rightarrow> 'm hit \<Rightarrow> 'm fused" where
  "dense_entry dense_weight k rank r =
     \<lparr> chunk_id = chunk_id r, content = content r, metadata = metadata r,
       score = dense_weight / real (k + rank),
       dense_rank = Some rank, sparse_rank = None,
       dense_score = Some (get_score r), sparse_score = None \<rparr>"

definition sparse_entry :: "real \<Rightarrow> nat \<Rightarrow> nat \<Rightarrow> 'm hit \<Rightarrow> 'm fused" where
  "sparse_entry sparse_weight k rank r =
     \<lparr> chunk_id = chunk_id r, content = content r, metadata = metadata r,
       score = sparse_weight / real (k + rank),
       dense_rank = None, sparse_rank = Some rank,
       dense_score = None, sparse_score = Some (get_score r) \<rparr>"

definition add_dense :: "real \<Rightarrow> nat \<Rightarrow> (string \<times> 'm fused) list \<Rightarrow> nat \<times> 'm hit \<Rightarrow> (string \<times> 'm fused) list" where
  "add_dense dense_weight k fused_scores p =
     (case p of (rank, r) \<Rightarrow> dict_set (chunk_id r) (dense_entry dense_weight k rank r) fused_scores)"

definition add_sparse :: "real \<Rightarrow> nat \<Rightarrow> (string \<times> 'm fused) list \<Rightarrow> nat \<times> 'm hit \<Rightarrow> (string \<times> 'm fused) list" where
  "add_sparse sparse_weight k fused_scores p =
     (case p of (rank, r) \<Rightarrow>
        (case dict_get fused_scores (chunk_id r) of
           Some e \<Rightarrow>
             dict_set (chunk_id r)
               (e\<lparr> score := score e + sparse_weight / real (k + rank),
                   sparse_rank := Some rank,
                   sparse_score := Some (get_score r) \<rparr>) fused_scores
         | None \<Rightarrow> dict_set (chunk_id r) (sparse_entry sparse_weight k rank r) fused_scores))"

definition reciprocal_rank_fusion :: "'m hit list \<Rightarrow> 'm hit list \<Rightarrow> real \<Rightarrow> real \<Rightarrow> nat \<Rightarrow> 'm fused list" where
  "reciprocal_rank_fusion dense_results sparse_results dense_weight sparse_weight k =
     (let fused_scores = foldl (add_dense dense_weight k) [] (enumerate_from 1 dense_results);
          fused_scores = foldl (add_sparse sparse_weight k) fused_scores (enumerate_from 1 sparse_results)
      in sorted_reverse score (map snd fused_scores))"

text \<open>
  Two notions for stating what the fusion computes: the 1-based rank of the first hit
  with a given chunk id in a list (\<open>None\<close> when there is none), and the partial score
  \<open>w / (k + rank)\<close> that a rank contributes (nothing for no rank).
\<close>

fun rank_of :: "string \<Rightarrow> 'm hit list \<Rightarrow> nat option" where
  "rank_of c [] = None"
| "rank_of c (h # hs) = (if chunk_id h = c then Some 1 else map_option Suc (rank_of c hs))"

definition partial_score :: "real \<Rightarrow> nat \<Rightarrow> nat option \<Rightarrow> real" where
  "partial_score w k r = (case r of None \<Rightarrow> 0 | Some n \<Rightarrow> w / real (k + n))"

text \<open>
  The sparse index.  \<open>BM25Okapi\<close> and \<open>np.argsort\<close> are external: \<open>get_scores\<close> gives the
  score of every corpus document for a tokenized query, \<open>argsort\<close> the indices in
  ascending order of score.  The corpus chunks have the keys \<open>chunk_id\<close> and \<open>metadata\<close>,
  so the defaults of \<open>chunk.get\<close> are not needed.
\<close>

definition lower :: "string \<Rightarrow> string" where
  "lower s = map (\<lambda>c. let n = of_char c :: nat in if 65 \<le> n \<and> n \<le> 90 then char_of (n + 32) else c) s"

fun split_ws :: "string \<Rightarrow> string \<Rightarrow> string list" where
  "split_ws w [] = (if w = [] then [] else [w])"
| "split_ws w (c # cs) =
     (if is_space c then (if w = [] then split_ws [] cs else w # split_ws [] cs)
      else split_ws (w @ [c]) cs)"

definition tokenize :: "string \<Rightarrow> string list" where
  "tokenize s = split_ws [] (lower s)"

record ('idx, 'm) hybrid_search_state =
  bm25_index :: "'idx option"
  bm25_corpus :: "string list"
  bm25_metadata :: "'m chunk list"

definition init_hybrid_search :: "('idx, 'm) hybrid_search_state" where
  "init_hybrid_search = \<lparr> bm25_index = None, bm25_corpus = [], bm25_metadata = [] \<rparr>"

definition index_for_bm25 :: "(string list list \<Rightarrow> 'idx) \<Rightarrow> 'm chunk list
    \<Rightarrow> ('idx, 'm) hybrid_search_state \<Rightarrow> ('idx, 'm) hybrid_search_state" where
  "index_for_bm25 bm25_okapi chunks hs =
     (if chunks = [] then hs\<lparr> bm25_index := None, bm25_corpus := [], bm25_metadata := [] \<rparr>
      else hs\<lparr> bm25_corpus := map content chunks,
              bm25_metadata := chunks,
              bm25_index := Some (bm25_okapi (map tokenize (map content chunks))) \<rparr>)"

fun bm25_collect :: "real list \<Rightarrow> string list \<Rightarrow> 'm chunk list \<Rightarrow> nat list \<Rightarrow> py_error + 'm hit list" where
  "bm25_collect scores corpus md [] = Inr []"
| "bm25_collect scores corpus md (idx # rest) =
     (if \<not> idx < length scores then Inl (IndexError ''index out of bounds'')
      else if scores ! idx > 0 then
        (if \<not> idx < length md \<or> \<not> idx < length corpus then Inl (IndexError ''list index out of range'')
         else (case bm25_collect scores corpus md rest of
                 Inl e \<Rightarrow> Inl e
               | Inr results \<Rightarrow>
                   Inr (\<lparr> chunk_id = chunk_id (md ! idx), content = corpus ! idx,
                          metadata = metadata (md ! idx), hit_score = Some (scores ! idx) \<rparr> # results)))
      else bm25_collect scores corpus md rest)"

definition bm25_search :: "('idx \<Rightarrow> string list \<Rightarrow> real list) \<Rightarrow> (real list \<Rightarrow> nat list)
    \<Rightarrow> ('idx, 'm) hybrid_search_state \<Rightarrow> string \<Rightarrow> int \<Rightarrow> py_error + 'm hit list" where
  "bm25_search get_scores argsort hs q top_k =
     (case bm25_index hs of
        None \<Rightarrow> Inr []
      | Some index \<Rightarrow>
          (let tokenized_query = tokenize q;
               scores = get_scores index tokenized_query;
               top_indices = slice_to top_k (rev (argsort scores))
           in bm25_collect scores (bm25_corpus hs) (bm25_metadata hs) top_indices))"

text \<open>
  \<open>hybrid_search\<close>.  \<open>similarity_search\<close> stands for the vector store's method; when it
  raises, the exception propagates, and it is kept apart from the \<open>ValueError\<close> of the
  weight check by its constructor.  The weight check
  \<open>abs(dense_weight + sparse_weight - 1.0) > 0.01\<close> is evaluated in float arithmetic,
  with a rounding after the addition and after the subtraction.  The fusion receives
  the weights as they were given; its scores are modelled in the reals.
\<close>

definition weights_error :: py_error where
  "weights_error = ValueError ''dense_weight + sparse_weight must equal 1.0''"

definition hybrid_search :: "(string \<Rightarrow> int \<Rightarrow> 'f \<Rightarrow> string + 'm hit list)
    \<Rightarrow> ('idx \<Rightarrow> string list \<Rightarrow> real list) \<Rightarrow> (real list \<Rightarrow> nat list)
    \<Rightarrow> ('idx, 'm) hybrid_search_state
    \<Rightarrow> string \<Rightarrow> int \<Rightarrow> weight \<Rightarrow> weight \<Rightarrow> 'f \<Rightarrow> py_error + 'm fused list" where
  "hybrid_search similarity_search get_scores argsort hs q top_k dense_weight sparse_weight filter_dict =
     (if fgt (fabs (fsub (fadd (of_weight dense_weight) (of_weight sparse_weight)) float_1_0)) float_0_01
      then Inl weights_error
      else
        (case similarity_search q (top_k * 2) filter_dict of
           Inl msg \<Rightarrow> Inl (ExternalError msg)
         | Inr dense_results \<Rightarrow>
             (case bm25_search get_scores argsort hs q (top_k * 2) of
                Inl e \<Rightarrow> Inl e
              | Inr sparse_results \<Rightarrow>
                  Inr (slice_to top_k
                        (reciprocal_rank_fusion dense_results sparse_results
                           (weight_val dense_weight) (weight_val sparse_weight) 60)))))"

section \<open>Re-ranking agent (\<open>agents/reranking_agent.py\<close>) and agent state\<close>

text \<open>
  The chunks in the state are dictionaries.  The re-ranker reads two keys of a chunk,
  \<open>chunk['content']\<close> and \<open>chunk.get('score', 0.5)\<close>; they are the accessors
  \<open>content_of\<close> and \<open>score_of\<close> (\<open>None\<close> when the key is absent).  The re-ranked
  dictionary \<open>{**chunk, 'rerank_score': ..., 'similarity': ...}\<close> is the chunk with two
  more keys.

  A node mutates one object that it shares with its caller: the list in
  \<open>state["processing_steps"]\<close>, to which it appends its name in place before it does
  anything else.  The append is therefore visible to the caller also when the node
  raises afterwards: a node that raises returns the exception together with the
  contents of that list as the node left it.  All other fields are assigned in the
  node's own dictionary.
\<close>

type_synonym 's node_result = "(py_error \<times> string list) + 's"

record 'c reranked =
  source_chunk :: 'c
  rerank_score :: real
  chunk_similarity :: real

record ('c, 'w, 'cit) agent_state =
  query :: string
  conversation_id :: "string option"
  messages :: "string list"
  query_type :: "string option"
  needs_web_search :: bool
  search_keywords :: "string list"
  retrieved_chunks :: "'c list"
  web_results :: "'w list"
  reranked_chunks :: "'c reranked list"
  generated_response :: "string option"
  citations :: "'cit list"
  final_response :: "string option"
  processing_steps :: "string list"
  error :: "string option"

definition score_chunk :: "(string \<Rightarrow> real list) \<Rightarrow> int \<Rightarrow> ('c \<Rightarrow> string) \<Rightarrow> ('c \<Rightarrow> real option)
    \<Rightarrow> real list \<Rightarrow> 'c \<Rightarrow> py_error + 'c reranked" where
  "score_chunk encode dimension content_of score_of query_embedding c =
     (let chunk_embedding = embed_text encode dimension (content_of c) in
      case similarity query_embedding chunk_embedding of
        Inl e \<Rightarrow> Inl e
      | Inr sim \<Rightarrow>
          (let existing_score = (case score_of c of Some x \<Rightarrow> x | None \<Rightarrow> 0.5);
               final_score = (sim * 0.6) + (existing_score * 0.4)
           in Inr \<lparr> source_chunk = c, rerank_score = final_score, chunk_similarity = sim \<rparr>))"

fun score_chunks :: "(string \<Rightarrow> real list) \<Rightarrow> int \<Rightarrow> ('c \<Rightarrow> string) \<Rightarrow> ('c \<Rightarrow> real option)
    \<Rightarrow> real list \<Rightarrow> 'c list \<Rightarrow> py_error + 'c reranked list" where
  "score_chunks encode dimension content_of score_of query_embedding [] = Inr []"
| "score_chunks encode dimension content_of score_of query_embedding (c # rest) =
     (case score_chunk encode dimension content_of score_of query_embedding c of
        Inl e \<Rightarrow> Inl e
      | Inr sc \<Rightarrow>
          (case score_chunks encode dimension content_of score_of query_embedding rest of
             Inl e \<Rightarrow> Inl e
           | Inr scored \<Rightarrow> Inr (sc # scored)))"

definition rerank :: "(string \<Rightarrow> real list) \<Rightarrow> settings \<Rightarrow> ('c \<Rightarrow> string) \<Rightarrow> ('c \<Rightarrow> real option)
    \<Rightarrow> ('c, 'w, 'cit) agent_state \<Rightarrow> ('c, 'w, 'cit) agent_state node_result" where
  "rerank encode cfg content_of score_of state =
     (let q = query state;
          chunks = retrieved_chunks state;
          state = state\<lparr> processing_steps := processing_steps state @ [''reranking''] \<rparr>
      in if chunks = [] then Inr (state\<lparr> reranked_chunks := [] \<rparr>)
         else
           (let query_embedding = embed_text encode (embedding_dimension cfg) q in
            case score_chunks encode (embedding_dimension cfg) content_of score_of query_embedding chunks of
              Inl e \<Rightarrow> Inl (e, processing_steps state)
            | Inr scored_chunks \<Rightarrow>
                (let top_chunks = slice_to (reranking_top_k cfg) (sorted_reverse rerank_score scored_chunks)
                 in Inr (state\<lparr> reranked_chunks := top_chunks \<rparr>))))"

section \<open>Retrieval agent (\<open>agents/retrieval_agent.py\<close>)\<close>

text \<open>
  \<open>hybrid\<close> stands for \<open>self.hybrid_search.hybrid_search\<close> with its keyword arguments
  \<open>query\<close>, \<open>top_k\<close>, \<open>dense_weight\<close>, \<open>sparse_weight\<close>, and \<open>web\<close> for the web search
  service.
\<close>

definition retrieve :: "(string \<Rightarrow> int \<Rightarrow> weight \<Rightarrow> weight \<Rightarrow> py_error + 'c list)
    \<Rightarrow> (string \<Rightarrow> int \<Rightarrow> py_error + 'w list) \<Rightarrow> settings
    \<Rightarrow> ('c, 'w, 'cit) agent_state \<Rightarrow> ('c, 'w, 'cit) agent_state node_result" where
  "retrieve hybrid web cfg state =
     (let q = query state;
          needs_web = needs_web_search state;
          state = state\<lparr> processing_steps := processing_steps state @ [''retrieval''] \<rparr>
      in case hybrid q (retrieval_top_k cfg) float_0_7 float_0_3 of
           Inl e \<Rightarrow> Inl (e, processing_steps state)
         | Inr vector_results \<Rightarrow>
             (let state = state\<lparr> retrieved_chunks := vector_results \<rparr>
              in if needs_web then
                   (case web q 5 of
                      Inl e \<Rightarrow> Inl (e, processing_steps state)
                    | Inr found \<Rightarrow> Inr (state\<lparr> web_results := found \<rparr>))
                 else Inr (state\<lparr> web_results := [] \<rparr>)))"

section \<open>Workflow (\<open>agents/workflow.py\<close>)\<close>

text \<open>
  The compiled graph is the chain \<open>query_analysis\<close>, \<open>retrieval\<close>, \<open>reranking\<close>,
  \<open>generation\<close>, \<open>citation\<close>.  \<open>graph.ainvoke\<close> (LangGraph) hands each node a state
  dictionary of its own, built from the previous node's result, and runs the nodes in
  order; an exception raised by a node leaves \<open>ainvoke\<close> and is caught by \<open>run\<close>
  (\<open>except Exception\<close>).  The values in these dictionaries are passed by reference,
  so the list object that \<open>initial_state["processing_steps"]\<close> holds is the one every
  node appends to: after a failure it lists the nodes that had started.  The
  dictionary \<open>initial_state\<close> itself is never assigned to by a node: the nodes write
  \<open>state["retrieved_chunks"] = ...\<close> and \<open>state["reranked_chunks"] = ...\<close> into their
  own dictionary, and \<open>initial_state\<close> keeps the empty lists it was built with.
\<close>

fun ainvoke :: "('s \<Rightarrow> 's node_result) list \<Rightarrow> 's \<Rightarrow> 's node_result" where
  "ainvoke [] s = Inr s"
| "ainvoke (node # rest) s = (case node s of Inl e \<Rightarrow> Inl e | Inr s' \<Rightarrow> ainvoke rest s')"

definition build_graph :: "'n \<Rightarrow> 'n \<Rightarrow> 'n \<Rightarrow> 'n \<Rightarrow> 'n \<Rightarrow> 'n list" where
  "build_graph query_analysis retrieval reranking generation citation =
     [query_analysis, retrieval, reranking, generation, citation]"

definition initial_state :: "string \<Rightarrow> string option \<Rightarrow> ('c, 'w, 'cit) agent_state" where
  "initial_state q cid =
     \<lparr> query = q, conversation_id = cid, messages = [], query_type = None,
       needs_web_search = False, search_keywords = [], retrieved_chunks = [],
       web_results = [], reranked_chunks = [], generated_response = None,
       citations = [], final_response = None, processing_steps = [], error = None \<rparr>"

definition run :: "(('c, 'w, 'cit) agent_state \<Rightarrow> ('c, 'w, 'cit) agent_state node_result) list
    \<Rightarrow> string \<Rightarrow> string option \<Rightarrow> ('c, 'w, 'cit) agent_state" where
  "run graph q cid =
     (case ainvoke graph (initial_state q cid) of
        Inr final_state \<Rightarrow> final_state
      | Inl (e, steps) \<Rightarrow>
          (initial_state q cid)\<lparr> processing_steps := steps, error := Some (error_str e) \<rparr>)"


section \<open>Example inputs\<close>

text \<open>
  A plain-text document: a five-character heading, a blank line and a paragraph of
  600 letters.  With the configured \<open>chunk_size = 512\<close> and \<open>chunk_overlap = 128\<close> the
  recursive splitter cuts it into the heading, the first 511 letters, and the last
  217 letters (128 of overlap and the 89 that remain); \<open>demo_split_text\<close> is the
  splitter on that document.
\<close>

definition demo_metadata :: doc_metadata where
  "demo_metadata = \<lparr> doc_id = ''d1'', filename = ''notes.txt'', file_type = ''txt'',
                      upload_timestamp = ''2024-01-01'' \<rparr>"

definition demo_document :: string where
  "demo_document = ''Intro'' @ [CHR 0x0A, CHR 0x0A] @ replicate 600 (CHR ''a'')"

definition demo_split_text :: "string \<Rightarrow> string list" where
  "demo_split_text t =
     (if t = demo_document then [''Intro'', replicate 511 (CHR ''a''), replicate 217 (CHR ''a'')]
      else [t])"

text \<open>
  A pipeline run: the hybrid search returns one fused chunk, the embedding model
  maps a text to a two-dimensional vector, query analysis only
  records its step, and the generation node raises after it has recorded its step.
\<close>

definition demo_fused :: "unit fused" where
  "demo_fused = \<lparr> chunk_id = ''d1_chunk_0'', content = ''RAG combines retrieval and generation'',
                   metadata = (), score = 0.7 / 61, dense_rank = Some 1, sparse_rank = None,
                   dense_score = Some 0.9, sparse_score = None \<rparr>"

definition demo_encode :: "string \<Rightarrow> real list" where
  "demo_encode t = [1, real (length t)]"

definition demo_settings :: settings where
  "demo_settings = default_settings\<lparr> embedding_dimension := 2 \<rparr>"

definition demo_hybrid :: "string \<Rightarrow> int \<Rightarrow> weight \<Rightarrow> weight \<Rightarrow> py_error + unit fused list" where
  "demo_hybrid q top_k dense_weight sparse_weight = Inr [demo_fused]"

type_synonym demo_state = "(unit fused, unit, unit) agent_state"

definition demo_graph :: "(demo_state \<Rightarrow> demo_state node_result) list" where
  "demo_graph =
     build_graph
       (\<lambda>s. Inr (s\<lparr> processing_steps := processing_steps s @ [''query_analysis''] \<rparr>))
       (retrieve demo_hybrid (\<lambda>q n. Inr []) demo_settings)
       (rerank demo_encode demo_settings content (\<lambda>c. Some (score c)))
       (\<lambda>s. Inl (ExternalError ''generation failed'', processing_steps s @ [''generation'']))
       (\<lambda>s. Inr s)"

text \<open>
  A re-ranking input: three chunks given as pairs of content and optional prior score,
  an embedding model with the two-dimensional vectors \<open>[3, 4]\<close> for the query and
  \<open>[1, 0]\<close>, \<open>[0, 1]\<close>, \<open>[4, 3]\<close> for the chunks, and a top-N of 2.
\<close>

definition rerank_demo_encode :: "string \<Rightarrow> real list" where
  "rerank_demo_encode t =
     (if t = ''q'' then [3, 4] else if t = ''x'' then [1, 0] else if t = ''y'' then [0, 1] else [4, 3])"

definition rerank_demo_settings :: settings where
  "rerank_demo_settings = default_settings\<lparr> embedding_dimension := 2, reranking_top_k := 2 \<rparr>"

definition rerank_demo_state :: "(string \<times> real option, unit, unit) agent_state" where
  "rerank_demo_state =
     (initial_state ''q'' None)\<lparr> retrieved_chunks := [(''z'', Some 0.1), (''y'', None), (''x'', Some 1)] \<rparr>"

text \<open>A hit of a ranked list, with its chunk id as content and no score.\<close>

definition example_hit :: "string \<Rightarrow> unit hit" where
  "example_hit c = \<lparr> chunk_id = c, content = c, metadata = (), hit_score = None \<rparr>"

section \<open>Sparse search before the index is built\<close>

text \<open>
  Claim C9.  A hybrid search object on which \<open>index_for_bm25\<close> has not been called has
  \<open>bm25_index = None\<close>; for every query and every \<open>top_k\<close> its sparse search returns the
  empty list and raises nothing.
\<close>

theorem bm25_search_before_build:
  "bm25_search get_scores argsort init_hybrid_search q top_k = Inr []"
  by (simp add: bm25_search_def init_hybrid_search_def)

section \<open>The weight check of the hybrid search\<close>



lemma bit_length_0: "bit_length 0 = 0"
  by (simp add: bit_length.simps)

lemma bit_length_Suc_0: "bit_length (Suc 0) = 1"
  by (subst bit_length.simps) (simp add: bit_length_0)

lemma bit_length_1: "bit_length 1 = 1"
  using bit_length_Suc_0 by simp

lemma bit_length_numeral: "bit_length (numeral k) = 1 + bit_length (numeral k div 2)"
  by (subst bit_length.simps) simp

lemmas float_eval = bit_length_0 bit_length_1 bit_length_Suc_0 bit_length_numeral
  round_float_def round_to_even_def fsub_def float_1_0_def float_0_01_def Let_def

text \<open>The literals are the floats nearest to their decimals.\<close>

lemma float_literals:
  "\<bar>weight_val float_0_7 - 7 / 10\<bar> \<le> 1 / 2 ^ 54
   \<and> \<bar>weight_val float_0_3 - 3 / 10\<bar> \<le> 1 / 2 ^ 55
   \<and> \<bar>weight_val float_0_2 - 2 / 10\<bar> \<le> 1 / 2 ^ 56
   \<and> \<bar>weight_val float_0_31 - 31 / 100\<bar> \<le> 1 / 2 ^ 55
   \<and> \<bar>weight_val (Weight 5764607523034235 (- 59)) - 1 / 100\<bar> \<le> 1 / 2 ^ 60"
  by (simp add: float_0_7_def float_0_3_def float_0_2_def float_0_31_def)

text \<open>
  \<open>0.7 + 0.3\<close> is the float \<open>1.0\<close> (as \<open>2 ^ 53 * 2 ^ (-53)\<close>), \<open>0.7 + 0.2\<close> is
  \<open>0.8999999999999999\<close> and \<open>0.7 + 0.31\<close> is \<open>1.01\<close>.
\<close>

lemma float_sums:
  "fadd (of_weight float_0_7) (of_weight float_0_3) = Finite 9007199254740992 (- 53)
   \<and> fadd (of_weight float_0_7) (of_weight float_0_2) = Finite 8106479329266892 (- 53)
   \<and> fadd (of_weight float_0_7) (of_weight float_0_31) = Finite 4548635623644201 (- 52)"
  by (simp add: float_eval float_0_7_def float_0_3_def float_0_2_def float_0_31_def)



lemma weights_0_7_0_31:
  "fgt (fabs (fsub (fadd (of_weight float_0_7) (of_weight float_0_31)) float_1_0)) float_0_01"
  by (simp add: float_eval float_0_7_def float_0_31_def)

lemma hybrid_search_unfold:
  "hybrid_search similarity_search get_scores argsort hs q top_k dense_weight sparse_weight filter_dict
     = (if fgt (fabs (fsub (fadd (of_weight dense_weight) (of_weight sparse_weight)) float_1_0)) float_0_01
        then Inl weights_error
        else (case similarity_search q (top_k * 2) filter_dict of
                Inl msg \<Rightarrow> Inl (ExternalError msg)
              | Inr dense_results \<Rightarrow>
                  (case bm25_search get_scores argsort hs q (top_k * 2) of
                     Inl e \<Rightarrow> Inl e
                   | Inr sparse_results \<Rightarrow>
                       Inr (slice_to top_k
                             (reciprocal_rank_fusion dense_results sparse_results
                                (weight_val dense_weight) (weight_val sparse_weight) 60)))))"
  by (simp add: hybrid_search_def)


text \<open>
  The rounding is visible at the pair (0.7, 0.31): the exact sum of the two floats
  differs from 1 by less than a hundredth, the float sum by more, and the error is
  raised.
\<close>

lemma hybrid_search_rounding:
  "hybrid_search similarity_search get_scores argsort hs q top_k float_0_7 float_0_31 filter_dict
     = Inl weights_error
   \<and> \<bar>weight_val float_0_7 + weight_val float_0_31 - 1\<bar> < 1 / 100"
proof
  show "hybrid_search similarity_search get_scores argsort hs q top_k float_0_7 float_0_31 filter_dict
     = Inl weights_error"
    by (simp add: hybrid_search_unfold weights_0_7_0_31)
  show "\<bar>weight_val float_0_7 + weight_val float_0_31 - 1\<bar> < 1 / 100"
    by (simp add: float_0_7_def float_0_31_def)
qed

section \<open>Cosine similarity\<close>

text \<open>
  Claim C4, at the input \<open>[1.0, 0.0]\<close>, \<open>[-1.0, 0.0]\<close>: the code returns the cosine of
  the two vectors, which is \<open>-1\<close> and lies outside the interval from 0 to 1 that the
  docstring of \<open>similarity\<close> promises.
\<close>

theorem similarity_opposite_vectors:
  "similarity [1, 0] [-1, 0] = Inr (-1)"
  by (simp add: similarity_def dot_def norm2_def)

section \<open>Batch embedding keeps length and order\<close>

lemma enumerate_from_snoc:
  "enumerate_from k (xs @ [x]) = enumerate_from k xs @ [(k + length xs, x)]"
  by (simp add: enumerate_from_def)

lemma enumerate_from_fst_bound:
  "(i, x) \<in> set (enumerate_from k xs) \<Longrightarrow> k \<le> i \<and> i < k + length xs"
  by (auto simp: enumerate_from_def dest: set_zip_leftD)

lemma fill_append:
  "\<forall>p \<in> set ops. fst p < length xs \<Longrightarrow>
   foldl (\<lambda>res (idx, e). res[idx := e]) (xs @ ys) ops
     = foldl (\<lambda>res (idx, e). res[idx := e]) xs ops @ ys"
proof (induction ops arbitrary: xs)
  case Nil
  then show ?case by simp
next
  case (Cons p ops)
  obtain i e where p: "p = (i, e)" by (cases p)
  with Cons.prems have i: "i < length xs" by simp
  have "\<forall>q \<in> set ops. fst q < length (xs[i := e])" using Cons.prems by simp
  from Cons.IH[OF this] show ?case using p i by (simp add: list_update_append1)
qed

lemma fill_length:
  "length (foldl (\<lambda>res (idx, e). res[idx := e]) xs ops) = length xs"
  by (induction ops arbitrary: xs) (auto split: prod.splits)

lemma fill_valid:
  "foldl (\<lambda>res (idx, e). res[idx := e]) (replicate (length texts) z)
      (map (\<lambda>(i, t). (i, enc t)) (filter (\<lambda>(idx, t). \<not> is_blank t) (enumerate_from 0 texts)))
   = map (\<lambda>t. if is_blank t then z else enc t) texts"
proof (induction texts rule: rev_induct)
  case Nil
  then show ?case by (simp add: enumerate_from_def)
next
  case (snoc t texts)
  let ?f = "\<lambda>res (idx, e). res[idx := e]"
  let ?ops = "map (\<lambda>(i, t). (i, enc t)) (filter (\<lambda>(idx, t). \<not> is_blank t) (enumerate_from 0 texts))"
  have bound: "\<forall>p \<in> set ?ops. fst p < length (replicate (length texts) z)"
    by (auto dest: enumerate_from_fst_bound)
  have rep: "replicate (length (texts @ [t])) z = replicate (length texts) z @ [z]"
    by (simp add: replicate_append_same)
  have pre: "foldl ?f (replicate (length texts) z @ [z]) ?ops
      = map (\<lambda>t. if is_blank t then z else enc t) texts @ [z]"
    using fill_append[OF bound, of "[z]"] snoc.IH by simp
  show ?case
  proof (cases "is_blank t")
    case True
    then show ?thesis unfolding rep using pre by (simp add: enumerate_from_snoc)
  next
    case False
    then show ?thesis unfolding rep using pre
      by (simp add: enumerate_from_snoc list_update_append)
  qed
qed

lemma zip_fst_map_snd:
  "zip (map fst v) (map enc (map snd v)) = map (\<lambda>(i, t). (i, enc t)) v"
  by (induction v) auto

lemma filter_enumerate_snd:
  "map snd (filter (\<lambda>(idx, t). P t) (enumerate_from k xs)) = filter P xs"
proof (induction xs rule: rev_induct)
  case Nil
  then show ?case by (simp add: enumerate_from_def)
next
  case (snoc x xs)
  then show ?case by (simp add: enumerate_from_snoc)
qed

lemma embed_batch_eq_map:
  assumes "encode_batch (filter (\<lambda>t. \<not> is_blank t) texts)
             = map encode (filter (\<lambda>t. \<not> is_blank t) texts)"
  shows "embed_batch encode_batch dimension texts = map (embed_text encode dimension) texts"
proof (cases "texts = []")
  case True
  then show ?thesis by (simp add: embed_batch_def)
next
  case False
  let ?valid = "filter (\<lambda>(idx, t). \<not> is_blank t) (enumerate_from 0 texts)"
  have vt: "map snd ?valid = filter (\<lambda>t. \<not> is_blank t) texts"
    by (rule filter_enumerate_snd)
  show ?thesis
  proof (cases "filter (\<lambda>t. \<not> is_blank t) texts = []")
    case True
    then have "\<forall>t \<in> set texts. is_blank t" by (simp add: filter_empty_conv)
    then have "map (embed_text encode dimension) texts = replicate (length texts) (zero_vector dimension)"
      by (simp add: embed_text_def map_replicate_const[symmetric])
    then show ?thesis using False True vt by (simp add: embed_batch_def Let_def)
  next
    case nonempty: False
    have "embed_batch encode_batch dimension texts
        = foldl (\<lambda>res (idx, e). res[idx := e]) (replicate (length texts) (zero_vector dimension))
            (zip (map fst ?valid) (map encode (map snd ?valid)))"
      using False nonempty vt assms by (simp add: embed_batch_def Let_def)
    also have "\<dots> = map (\<lambda>t. if is_blank t then zero_vector dimension else encode t) texts"
      by (simp only: zip_fst_map_snd fill_valid)
    also have "\<dots> = map (embed_text encode dimension) texts"
      by (simp add: embed_text_def)
    finally show ?thesis .
  qed
qed

text \<open>
  Claim C5.  Let the model encode a batch as it encodes each text on its own (the
  hypothesis, on the texts that are not blank).  Then for every list of texts
  \<open>embed_batch\<close> returns exactly the list of \<open>embed_text\<close> of each entry, in input
  order: the result has the length of the input, a blank entry (empty or whitespace
  only) yields the zero vector of the configured dimension, and any other entry yields
  the vector \<open>embed_text\<close> gives for it.
\<close>

theorem embed_batch_order:
  assumes "encode_batch (filter (\<lambda>t. \<not> is_blank t) texts)
             = map encode (filter (\<lambda>t. \<not> is_blank t) texts)"
  shows "embed_batch encode_batch dimension texts = map (embed_text encode dimension) texts
     \<and> length (embed_batch encode_batch dimension texts) = length texts
     \<and> (\<forall>i < length texts.
          embed_batch encode_batch dimension texts ! i
            = (if is_blank (texts ! i) then zero_vector dimension else embed_text encode dimension (texts ! i)))"
proof -
  have eq: "embed_batch encode_batch dimension texts = map (embed_text encode dimension) texts"
    using assms by (rule embed_batch_eq_map)
  show ?thesis unfolding eq by (simp add: embed_text_def)
qed

theorem embed_batch_order_witness:
  "embed_batch (map (\<lambda>t. [real (length t), 1])) 2 [''ab'', '''', ''  '', ''c d'']
     = [[2, 1], [0, 0], [0, 0], [3, 1]]"
proof -
  show ?thesis
    using embed_batch_order[where encode_batch = "map (\<lambda>t. [real (length t), 1])"
        and encode = "\<lambda>t. [real (length t), 1]" and dimension = 2
        and texts = "[''ab'', '''', ''  '', ''c d'']"]
    by (simp add: embed_text_def zero_vector_def is_blank_def strip_def is_space_def numeral_2_eq_2)
qed

section \<open>Chunk indices and counts\<close>

lemma match_page_marker_head:
  "c \<noteq> CHR ''['' \<Longrightarrow> match_page_marker (c # cs) = None"
  by (simp add: match_page_marker_def)

lemma re_split_pages_no_bracket:
  "CHR ''['' \<notin> set s \<Longrightarrow> re_split_pages s = (s, [])"
  by (induction s) (auto simp: match_page_marker_head)

lemma dropWhile_replicate_keep:
  "\<not> P c \<Longrightarrow> dropWhile P (replicate n c) = replicate n c"
  by (cases n) simp_all

lemma strip_replicate:
  "\<not> is_space c \<Longrightarrow> strip (replicate n c) = replicate n c"
  by (simp add: strip_def dropWhile_replicate_keep)

lemma demo_document_no_bracket: "CHR ''['' \<notin> set demo_document"
  by (simp add: demo_document_def)

lemma chunk_document_demo:
  "chunk_document demo_split_text demo_document demo_metadata
     = [make_chunk demo_metadata 1 None (Some 3) (replicate 511 (CHR ''a'')),
        make_chunk demo_metadata 2 None (Some 3) (replicate 217 (CHR ''a''))]"
proof -
  have a: "\<not> is_space (CHR ''a'')" by (simp add: is_space_def)
  have s: "strip ''Intro'' = ''Intro''" by (simp add: strip_def is_space_def)
  have e: "enumerate_from 0 [x, y, z] = [(0, x), (1, y), (2, z)]" for x y z :: string
    by (simp add: enumerate_from_def upt_rec)
  show ?thesis
    by (simp add: chunk_document_def re_split_pages_no_bracket[OF demo_document_no_bracket]
        chunk_plain_text_def demo_split_text_def e strip_replicate[OF a] s numeral_3_eq_3)
qed

text \<open>
  Claim C2, at the plain-text document \<open>demo_document\<close>.  The splitter returns three
  pieces and the first is shorter than ten characters, so it is dropped: two chunks
  are returned, their \<open>chunk_index\<close> values are 1 and 2 (not 0 and 1) and both carry
  \<open>total_chunks = 3\<close> (not 2).  \<open>_chunk_plain_text\<close> numbers and counts the pieces before
  the minimum-length filter; \<open>_chunk_with_pages\<close> does both after it (lemma
  \<open>chunk_with_pages_indices\<close> below).
\<close>

theorem chunk_plain_text_index_gap:
  "map (\<lambda>c. chunk_index (metadata c)) (chunk_document demo_split_text demo_document demo_metadata) = [1, 2]
   \<and> map (\<lambda>c. total_chunks (metadata c)) (chunk_document demo_split_text demo_document demo_metadata)
        = [Some 3, Some 3]
   \<and> length (chunk_document demo_split_text demo_document demo_metadata) = 2"
  by (simp add: chunk_document_demo make_chunk_def)

text \<open>The page path, for comparison: the invariant holds there.\<close>

lemma page_chunks_loop_inv:
  assumes "map (\<lambda>c. chunk_index (metadata c)) chunks = [0 ..< length chunks]" "idx = length chunks"
    and "page_chunks_loop md page_num texts (chunks, idx) = (chunks', idx')"
  shows "map (\<lambda>c. chunk_index (metadata c)) chunks' = [0 ..< length chunks'] \<and> idx' = length chunks'"
  using assms
proof (induction texts arbitrary: chunks idx)
  case Nil
  then show ?case by auto
next
  case (Cons t texts)
  show ?case
  proof (cases "length (strip t) < 10")
    case True
    with Cons.prems have "page_chunks_loop md page_num texts (chunks, idx) = (chunks', idx')" by simp
    with Cons.IH Cons.prems(1,2) show ?thesis by blast
  next
    case False
    let ?cs = "chunks @ [make_chunk md idx (Some page_num) None t]"
    from False Cons.prems have l: "page_chunks_loop md page_num texts (?cs, idx + 1) = (chunks', idx')"
      by simp
    have "map (\<lambda>c. chunk_index (metadata c)) ?cs = [0 ..< length ?cs]"
      using Cons.prems(1,2) by (simp add: make_chunk_def)
    moreover have "idx + 1 = length ?cs" using Cons.prems(2) by simp
    ultimately show ?thesis using Cons.IH l by blast
  qed
qed

lemma pages_loop_inv:
  assumes "map (\<lambda>c. chunk_index (metadata c)) chunks = [0 ..< length chunks]" "idx = length chunks"
    and "pages_loop split_text md pages (chunks, idx) = (chunks', idx')"
  shows "map (\<lambda>c. chunk_index (metadata c)) chunks' = [0 ..< length chunks'] \<and> idx' = length chunks'"
  using assms
proof (induction pages arbitrary: chunks idx)
  case Nil
  then show ?case by auto
next
  case (Cons p pages)
  obtain page_num raw where p: "p = (page_num, raw)" by (cases p)
  show ?case
  proof (cases "strip raw = [] \<or> strip raw = ''[No text content]''")
    case True
    with Cons.prems p have "pages_loop split_text md pages (chunks, idx) = (chunks', idx')"
      by (simp add: Let_def)
    with Cons.IH Cons.prems(1,2) show ?thesis by blast
  next
    case False
    obtain cs i where mid: "page_chunks_loop md page_num (split_text (strip raw)) (chunks, idx) = (cs, i)"
      by (cases "page_chunks_loop md page_num (split_text (strip raw)) (chunks, idx)")
    from page_chunks_loop_inv[OF Cons.prems(1,2) mid]
    have inv: "map (\<lambda>c. chunk_index (metadata c)) cs = [0 ..< length cs]" "i = length cs" by simp_all
    from False Cons.prems(3) p mid have "pages_loop split_text md pages (cs, i) = (chunks', idx')"
      by (simp add: Let_def)
    with Cons.IH inv show ?thesis by blast
  qed
qed

lemma chunk_with_pages_indices:
  "map (\<lambda>c. chunk_index (metadata c)) (chunk_with_pages split_text pages md)
     = [0 ..< length (chunk_with_pages split_text pages md)]
   \<and> (\<forall>c \<in> set (chunk_with_pages split_text pages md).
        total_chunks (metadata c) = Some (length (chunk_with_pages split_text pages md)))"
proof -
  obtain cs i where l: "pages_loop split_text md pages ([], 0) = (cs, i)"
    by (cases "pages_loop split_text md pages ([], 0)")
  have "map (\<lambda>c. chunk_index (metadata c)) cs = [0 ..< length cs]"
    using pages_loop_inv[OF _ _ l] by simp
  then show ?thesis using l
    by (auto simp: chunk_with_pages_def Let_def set_total_def comp_def)
qed

lemma chunk_plain_text_indices:
  "map (\<lambda>c. chunk_index (metadata c)) (chunk_plain_text split_text cont md)
     = filter (\<lambda>i. 10 \<le> length (strip (split_text cont ! i))) [0 ..< length (split_text cont)]
   \<and> (\<forall>c \<in> set (chunk_plain_text split_text cont md).
        total_chunks (metadata c) = Some (length (split_text cont)))"
proof -
  have g: "map (\<lambda>c. chunk_index (metadata c))
         (concat (map (\<lambda>(idx, chunk_text).
                 if length (strip chunk_text) < 10 then []
                 else [make_chunk md idx None tot chunk_text]) (enumerate_from k xs)))
       = map (\<lambda>i. i + k) (filter (\<lambda>i. 10 \<le> length (strip (xs ! i))) [0 ..< length xs])" for k tot xs
  proof (induction xs rule: rev_induct)
    case Nil
    then show ?case by (simp add: enumerate_from_def)
  next
    case (snoc x xs)
    have f: "filter (\<lambda>i. 10 \<le> length (strip ((xs @ [x]) ! i))) [0 ..< length xs]
           = filter (\<lambda>i. 10 \<le> length (strip (xs ! i))) [0 ..< length xs]"
      by (rule filter_cong) (auto simp: nth_append)
    show ?case using snoc f
      by (simp add: enumerate_from_def make_chunk_def)
  qed
  show ?thesis
    using g[where k = 0 and xs = "split_text cont" and tot = "Some (length (split_text cont))"]
    by (auto simp: chunk_plain_text_def Let_def make_chunk_def split: if_splits)
qed

section \<open>Failure of a pipeline node\<close>


lemma run_failure_state:
  assumes "ainvoke graph (initial_state q cid) = Inl (e, steps)"
  shows "run graph q cid
       = (initial_state q cid)\<lparr> processing_steps := steps, error := Some (error_str e) \<rparr>"
  using assms by (simp add: run_def)


lemma demo_graph_fails:
  "ainvoke demo_graph (initial_state ''What is RAG?'' None)
     = Inl (ExternalError ''generation failed'',
            [''query_analysis'', ''retrieval'', ''reranking'', ''generation''])"
  by (simp add: demo_graph_def build_graph_def initial_state_def retrieve_def rerank_def
      demo_settings_def default_settings_def demo_hybrid_def demo_fused_def Let_def
      score_chunk_def embed_text_def is_blank_def strip_def is_space_def demo_encode_def
      similarity_def sorted_reverse_def slice_to_def)


text \<open>
  The list of processing steps is the one field of the returned state that the nodes
  have changed: on the run \<open>demo_graph\<close> it names the four nodes that had started.
\<close>

lemma run_demo_graph_state:
  "run demo_graph ''What is RAG?'' None
     = (initial_state ''What is RAG?'' None)
         \<lparr> processing_steps := [''query_analysis'', ''retrieval'', ''reranking'', ''generation''],
           error := Some ''generation failed'' \<rparr>"
  using run_failure_state[OF demo_graph_fails] by simp

section \<open>Re-ranking: blend, order, truncation\<close>

lemma embed_text_length:
  assumes "\<And>t. length (encode t) = nat d"
  shows "length (embed_text encode d t) = nat d"
  using assms by (simp add: embed_text_def zero_vector_def)

lemma similarity_total:
  "length a = length b \<Longrightarrow> \<exists>s. similarity a b = Inr s"
  by (simp add: similarity_def Let_def)

lemma score_chunks_total:
  assumes "\<And>t. length (encode t) = nat d" "length qe = nat d"
  shows "\<exists>scored. score_chunks encode d content_of score_of qe cs = Inr scored"
proof (induction cs)
  case Nil
  then show ?case by simp
next
  case (Cons c cs)
  have "length qe = length (embed_text encode d (content_of c))"
    using assms by (simp add: embed_text_length)
  then obtain s where "similarity qe (embed_text encode d (content_of c)) = Inr s"
    using similarity_total by blast
  then show ?case using Cons by (auto simp: score_chunk_def Let_def)
qed

lemma score_chunks_result:
  "score_chunks encode d content_of score_of qe cs = Inr scored \<Longrightarrow>
   map source_chunk scored = cs
   \<and> (\<forall>r \<in> set scored.
         similarity qe (embed_text encode d (content_of (source_chunk r))) = Inr (chunk_similarity r)
       \<and> rerank_score r = 0.6 * chunk_similarity r
             + 0.4 * (case score_of (source_chunk r) of Some x \<Rightarrow> x | None \<Rightarrow> 0.5))"
proof (induction cs arbitrary: scored)
  case Nil
  then show ?case by simp
next
  case (Cons c cs)
  from Cons.prems obtain sc rest where
    sc: "score_chunk encode d content_of score_of qe c = Inr sc"
    and rest: "score_chunks encode d content_of score_of qe cs = Inr rest"
    and scored: "scored = sc # rest"
    by (auto split: sum.splits)
  from sc have "source_chunk sc = c
      \<and> similarity qe (embed_text encode d (content_of c)) = Inr (chunk_similarity sc)
      \<and> rerank_score sc = 0.6 * chunk_similarity sc
             + 0.4 * (case score_of c of Some x \<Rightarrow> x | None \<Rightarrow> 0.5)"
    by (auto simp: score_chunk_def Let_def split: sum.splits)
  with Cons.IH[OF rest] scored show ?case by simp
qed

lemma sorted_reverse_desc:
  "sorted_wrt (\<lambda>a b. f a \<ge> f b) (sorted_reverse f xs)"
proof -
  have "sorted (map (\<lambda>x. - f x) (sort_key (\<lambda>x. - f x) xs))" by (rule sorted_sort_key)
  then show ?thesis by (simp add: sorted_reverse_def sorted_map)
qed

lemma mset_sorted_reverse: "mset (sorted_reverse f xs) = mset xs"
  by (simp add: sorted_reverse_def)

lemma set_sorted_reverse: "set (sorted_reverse f xs) = set xs"
  by (simp add: sorted_reverse_def)

lemma dot_sum:
  "length a = length b \<Longrightarrow> dot a b = (\<Sum>i<length a. a ! i * b ! i)"
  by (simp add: dot_def sum_list_sum_nth atLeast0LessThan)

lemma norm2_sum: "norm2 v = sqrt (\<Sum>i<length v. v ! i * v ! i)"
  by (simp add: norm2_def sum_list_sum_nth atLeast0LessThan)

lemma similarity_cosine:
  assumes "length a = length b"
  shows "similarity a b =
     Inr (if (\<Sum>i<length a. a ! i * a ! i) = 0 \<or> (\<Sum>i<length b. b ! i * b ! i) = 0 then 0
          else (\<Sum>i<length a. a ! i * b ! i)
                 / (sqrt (\<Sum>i<length a. a ! i * a ! i) * sqrt (\<Sum>i<length b. b ! i * b ! i)))"
  using assms by (simp add: similarity_def Let_def dot_sum norm2_sum)

lemma sqrt_25: "sqrt 25 = 5"
  by (rule real_sqrt_unique) simp_all

text \<open>
  Claim C7.  Let the embedding model return vectors of the configured dimension and
  let the configured top-N be non-negative (its default is 5).  Then for every query
  and every chunk list the re-ranker returns without error.  The list \<open>scored\<close> holds
  exactly the input chunks.  For each of them, with \<open>qe\<close> the freshly computed
  embedding of the query and \<open>ce\<close> that of the chunk's content, \<open>similarity\<close> is the
  cosine \<open>(\<Sum>i. qe\<^sub>i * ce\<^sub>i) / (sqrt (\<Sum>i. qe\<^sub>i * qe\<^sub>i) * sqrt (\<Sum>i. ce\<^sub>i * ce\<^sub>i))\<close>
  (0 when one of the vectors is zero), and
  \<open>rerank_score = 0.6 * similarity + 0.4 * prior\<close>, where \<open>prior\<close> is the chunk's
  \<open>score\<close> when it has one and 0.5 otherwise.  \<open>scored\<close> is in descending order of
  \<open>rerank_score\<close>, the state receives its first top-N elements, and an empty chunk
  list gives an empty result.
\<close>

theorem rerank_blend_sort_truncate:
  assumes dim: "\<And>t. length (encode t) = nat (embedding_dimension cfg)"
    and k: "0 \<le> reranking_top_k cfg"
  shows "\<exists>scored.
      rerank encode cfg content_of score_of state
        = Inr (state\<lparr> processing_steps := processing_steps state @ [''reranking''],
                      reranked_chunks := take (nat (reranking_top_k cfg)) scored \<rparr>)
      \<and> mset (map source_chunk scored) = mset (retrieved_chunks state)
      \<and> sorted_wrt (\<lambda>a b. rerank_score a \<ge> rerank_score b) scored
      \<and> (\<forall>r \<in> set scored.
            (let qe = embed_text encode (embedding_dimension cfg) (query state);
                 ce = embed_text encode (embedding_dimension cfg) (content_of (source_chunk r));
                 qq = (\<Sum>i<length qe. qe ! i * qe ! i);
                 cc = (\<Sum>i<length ce. ce ! i * ce ! i);
                 qc = (\<Sum>i<length qe. qe ! i * ce ! i)
             in chunk_similarity r = (if qq = 0 \<or> cc = 0 then 0 else qc / (sqrt qq * sqrt cc)))
          \<and> rerank_score r = 0.6 * chunk_similarity r
                + 0.4 * (case score_of (source_chunk r) of Some x \<Rightarrow> x | None \<Rightarrow> 0.5))
      \<and> (retrieved_chunks state = [] \<longrightarrow> scored = [])
      \<and> reranking_top_k default_settings = 5"
proof (cases "retrieved_chunks state = []")
  case True
  then show ?thesis
    by (intro exI[of _ "[]"]) (simp add: rerank_def Let_def default_settings_def)
next
  case False
  let ?d = "embedding_dimension cfg"
  let ?qe = "embed_text encode ?d (query state)"
  have len: "length ?qe = nat ?d" using dim by (rule embed_text_length)
  have lenc: "length ?qe = length (embed_text encode ?d t)" for t
    using dim by (simp add: embed_text_length)
  have "\<exists>scored. score_chunks encode ?d content_of score_of ?qe (retrieved_chunks state) = Inr scored"
    by (rule score_chunks_total) (simp_all add: dim len)
  then obtain scored where sc: "score_chunks encode ?d content_of score_of ?qe (retrieved_chunks state) = Inr scored"
    by blast
  note res = score_chunks_result[OF sc]
  let ?sorted = "sorted_reverse rerank_score scored"
  have r: "rerank encode cfg content_of score_of state
        = Inr (state\<lparr> processing_steps := processing_steps state @ [''reranking''],
                      reranked_chunks := take (nat (reranking_top_k cfg)) ?sorted \<rparr>)"
    using False sc k by (simp add: rerank_def Let_def slice_to_def)
  have m: "mset (map source_chunk ?sorted) = mset (retrieved_chunks state)"
    using res by (metis mset_map mset_sorted_reverse)
  have s: "sorted_wrt (\<lambda>a b. rerank_score a \<ge> rerank_score b) ?sorted"
    by (rule sorted_reverse_desc)
  have b: "\<forall>r \<in> set ?sorted.
            (let qe = ?qe;
                 ce = embed_text encode ?d (content_of (source_chunk r));
                 qq = (\<Sum>i<length qe. qe ! i * qe ! i);
                 cc = (\<Sum>i<length ce. ce ! i * ce ! i);
                 qc = (\<Sum>i<length qe. qe ! i * ce ! i)
             in chunk_similarity r = (if qq = 0 \<or> cc = 0 then 0 else qc / (sqrt qq * sqrt cc)))
          \<and> rerank_score r = 0.6 * chunk_similarity r
                + 0.4 * (case score_of (source_chunk r) of Some x \<Rightarrow> x | None \<Rightarrow> 0.5)"
  proof
    fix r assume "r \<in> set ?sorted"
    then have "r \<in> set scored" by (simp add: set_sorted_reverse)
    with res have
      a: "similarity ?qe (embed_text encode ?d (content_of (source_chunk r))) = Inr (chunk_similarity r)"
      and c: "rerank_score r = 0.6 * chunk_similarity r
                + 0.4 * (case score_of (source_chunk r) of Some x \<Rightarrow> x | None \<Rightarrow> 0.5)"
      by auto
    from a similarity_cosine[OF lenc[of "content_of (source_chunk r)"]] c
    show "(let qe = ?qe;
                 ce = embed_text encode ?d (content_of (source_chunk r));
                 qq = (\<Sum>i<length qe. qe ! i * qe ! i);
                 cc = (\<Sum>i<length ce. ce ! i * ce ! i);
                 qc = (\<Sum>i<length qe. qe ! i * ce ! i)
             in chunk_similarity r = (if qq = 0 \<or> cc = 0 then 0 else qc / (sqrt qq * sqrt cc)))
          \<and> rerank_score r = 0.6 * chunk_similarity r
                + 0.4 * (case score_of (source_chunk r) of Some x \<Rightarrow> x | None \<Rightarrow> 0.5)"
      by (simp add: Let_def)
  qed
  show ?thesis
    using r m s b False by (intro exI[of _ ?sorted]) (simp add: default_settings_def)
qed

theorem rerank_blend_sort_truncate_witness:
  "rerank rerank_demo_encode rerank_demo_settings fst snd rerank_demo_state
     = Inr (rerank_demo_state\<lparr> processing_steps := [''reranking''],
              reranked_chunks :=
                [\<lparr> source_chunk = (''x'', Some 1), rerank_score = 0.76, chunk_similarity = 3 / 5 \<rparr>,
                 \<lparr> source_chunk = (''y'', None), rerank_score = 0.68, chunk_similarity = 4 / 5 \<rparr>] \<rparr>)"
proof -
  have dim: "\<And>t. length (rerank_demo_encode t) = nat (embedding_dimension rerank_demo_settings)"
    by (simp add: rerank_demo_encode_def rerank_demo_settings_def default_settings_def)
  have k: "0 \<le> reranking_top_k rerank_demo_settings"
    by (simp add: rerank_demo_settings_def default_settings_def)
  show ?thesis
    using rerank_blend_sort_truncate[of rerank_demo_encode rerank_demo_settings fst snd rerank_demo_state, OF dim k]
    by (simp add: rerank_def rerank_demo_state_def rerank_demo_settings_def default_settings_def
        initial_state_def Let_def score_chunk_def embed_text_def is_blank_def strip_def is_space_def
        rerank_demo_encode_def similarity_def dot_def norm2_def sorted_reverse_def slice_to_def
        sqrt_25 numeral_2_eq_2)
qed


section \<open>Rank fusion\<close>

lemma rank_of_None: "rank_of c xs = None \<longleftrightarrow> c \<notin> set (map chunk_id xs)"
  by (induction xs) auto

lemma rank_of_snoc:
  "rank_of c (xs @ [x]) =
     (case rank_of c xs of Some r \<Rightarrow> Some r
      | None \<Rightarrow> if chunk_id x = c then Some (Suc (length xs)) else None)"
  by (induction xs) (auto split: option.splits)

lemma dict_set_fresh: "k \<notin> set (map fst d) \<Longrightarrow> dict_set k v d = d @ [(k, v)]"
  by (induction d) auto

lemma dict_get_None: "dict_get d k = None \<longleftrightarrow> k \<notin> set (map fst d)"
  by (induction d) auto

lemma dict_get_Some_mem: "dict_get d k = Some v \<Longrightarrow> (k, v) \<in> set d"
  by (induction d) (auto split: if_splits)

lemma keys_dict_set_present:
  "k \<in> set (map fst d) \<Longrightarrow> map fst (dict_set k v d) = map fst d"
  by (induction d) auto

lemma set_dict_set_present:
  "distinct (map fst d) \<Longrightarrow> (c, e) \<in> set (dict_set k v d) \<Longrightarrow>
     (c = k \<and> e = v) \<or> (c \<noteq> k \<and> (c, e) \<in> set d)"
  by (induction d) (auto split: if_splits simp: rev_image_eqI)

lemma foldl_enumerate_snoc:
  "foldl f a (enumerate_from 1 (xs @ [x])) = f (foldl f a (enumerate_from 1 xs)) (Suc (length xs), x)"
  by (simp add: enumerate_from_snoc)

lemma dense_phase:
  assumes "distinct (map chunk_id xs)"
  shows "map fst (foldl (add_dense dw k) [] (enumerate_from 1 xs)) = map chunk_id xs
     \<and> (\<forall>(c, e) \<in> set (foldl (add_dense dw k) [] (enumerate_from 1 xs)).
           chunk_id e = c \<and> dense_rank e = rank_of c xs \<and> sparse_rank e = None
         \<and> score e = partial_score dw k (rank_of c xs))"
  using assms
proof (induction xs rule: rev_induct)
  case Nil
  then show ?case by (simp add: enumerate_from_def)
next
  case (snoc x xs)
  let ?d = "foldl (add_dense dw k) [] (enumerate_from 1 xs)"
  let ?new = "(chunk_id x, dense_entry dw k (Suc (length xs)) x)"
  from snoc have keys: "map fst ?d = map chunk_id xs"
    and ents: "\<forall>(c, e) \<in> set ?d. chunk_id e = c \<and> dense_rank e = rank_of c xs \<and> sparse_rank e = None
         \<and> score e = partial_score dw k (rank_of c xs)"
    and fresh: "chunk_id x \<notin> set (map chunk_id xs)"
    by auto
  have step: "foldl (add_dense dw k) [] (enumerate_from 1 (xs @ [x])) = ?d @ [?new]"
    using fresh keys by (subst foldl_enumerate_snoc) (simp add: add_dense_def dict_set_fresh)
  have old: "chunk_id e = c \<and> dense_rank e = rank_of c (xs @ [x]) \<and> sparse_rank e = None
         \<and> score e = partial_score dw k (rank_of c (xs @ [x]))" if "(c, e) \<in> set ?d" for c e
  proof -
    from that keys have "c \<in> set (map chunk_id xs)" by (metis fst_conv image_eqI set_map)
    then obtain r where "rank_of c xs = Some r" using rank_of_None by (cases "rank_of c xs") auto
    with that ents show ?thesis by (auto simp: rank_of_snoc)
  qed
  have new: "rank_of (chunk_id x) (xs @ [x]) = Some (Suc (length xs))"
    using fresh by (simp add: rank_of_snoc rank_of_None[THEN iffD2])
  show ?case unfolding step using keys old new
    by (auto simp: dense_entry_def partial_score_def)
qed

lemma sparse_phase:
  assumes "distinct (map chunk_id ys)" "distinct (map fst d0)"
    and "\<forall>(c, e) \<in> set d0. chunk_id e = c \<and> dense_rank e = rk c \<and> sparse_rank e = None \<and> score e = ps c"
    and "\<forall>c. c \<notin> set (map fst d0) \<longrightarrow> rk c = None \<and> ps c = 0"
  shows "distinct (map fst (foldl (add_sparse sw k) d0 (enumerate_from 1 ys)))
     \<and> set (map fst (foldl (add_sparse sw k) d0 (enumerate_from 1 ys)))
          = set (map fst d0) \<union> set (map chunk_id ys)
     \<and> (\<forall>(c, e) \<in> set (foldl (add_sparse sw k) d0 (enumerate_from 1 ys)).
           chunk_id e = c \<and> dense_rank e = rk c \<and> sparse_rank e = rank_of c ys
         \<and> score e = ps c + partial_score sw k (rank_of c ys))"
  using assms(1)
proof (induction ys rule: rev_induct)
  case Nil
  then show ?case using assms(2,3) by (auto simp: enumerate_from_def partial_score_def)
next
  case (snoc y ys)
  let ?d = "foldl (add_sparse sw k) d0 (enumerate_from 1 ys)"
  let ?n = "Suc (length ys)"
  let ?cid = "chunk_id y"
  from snoc have dist: "distinct (map fst ?d)"
    and keys: "set (map fst ?d) = set (map fst d0) \<union> set (map chunk_id ys)"
    and ents: "\<forall>(c, e) \<in> set ?d. chunk_id e = c \<and> dense_rank e = rk c \<and> sparse_rank e = rank_of c ys
         \<and> score e = ps c + partial_score sw k (rank_of c ys)"
    and fresh: "?cid \<notin> set (map chunk_id ys)"
    by auto
  have rnew: "rank_of ?cid (ys @ [y]) = Some ?n"
    using fresh by (simp add: rank_of_snoc rank_of_None[THEN iffD2])
  have rold: "rank_of c (ys @ [y]) = rank_of c ys" if "c \<noteq> ?cid" for c
    using that by (auto simp: rank_of_snoc split: option.splits)
  have rfresh: "rank_of ?cid ys = None" using fresh by (simp add: rank_of_None)
  show ?case
  proof (cases "dict_get ?d ?cid")
    case None
    then have nk: "?cid \<notin> set (map fst ?d)" by (simp add: dict_get_None)
    with keys have "?cid \<notin> set (map fst d0)" by auto
    with assms(4) have z: "rk ?cid = None" "ps ?cid = 0" by auto
    have step: "foldl (add_sparse sw k) d0 (enumerate_from 1 (ys @ [y]))
        = ?d @ [(?cid, sparse_entry sw k ?n y)]"
      using None nk by (subst foldl_enumerate_snoc) (simp add: add_sparse_def dict_set_fresh)
    have old: "chunk_id e = c \<and> dense_rank e = rk c \<and> sparse_rank e = rank_of c (ys @ [y])
         \<and> score e = ps c + partial_score sw k (rank_of c (ys @ [y]))" if "(c, e) \<in> set ?d" for c e
    proof -
      from that have "c \<in> set (map fst ?d)" by (metis fst_conv image_eqI set_map)
      with nk have "c \<noteq> ?cid" by metis
      with that ents rold show ?thesis by auto
    qed
    show ?thesis unfolding step using dist nk keys old rnew z
      by (auto simp: sparse_entry_def partial_score_def)
  next
    case (Some e0)
    then have mem: "(?cid, e0) \<in> set ?d" by (rule dict_get_Some_mem)
    then have ink: "?cid \<in> set (map fst ?d)" by (metis fst_conv image_eqI set_map)
    let ?e' = "e0\<lparr> score := score e0 + sw / real (k + ?n), sparse_rank := Some ?n,
                    sparse_score := Some (get_score y) \<rparr>"
    have step: "foldl (add_sparse sw k) d0 (enumerate_from 1 (ys @ [y])) = dict_set ?cid ?e' ?d"
      using Some by (subst foldl_enumerate_snoc) (simp add: add_sparse_def)
    have k': "map fst (dict_set ?cid ?e' ?d) = map fst ?d"
      using ink by (rule keys_dict_set_present)
    from mem ents rfresh have e0: "chunk_id e0 = ?cid" "dense_rank e0 = rk ?cid"
      "score e0 = ps ?cid" by (auto simp: partial_score_def)
    have all: "chunk_id e = c \<and> dense_rank e = rk c \<and> sparse_rank e = rank_of c (ys @ [y])
         \<and> score e = ps c + partial_score sw k (rank_of c (ys @ [y]))"
      if "(c, e) \<in> set (dict_set ?cid ?e' ?d)" for c e
    proof -
      from set_dict_set_present[OF dist that]
      show ?thesis
      proof
        assume "c = ?cid \<and> e = ?e'"
        then show ?thesis using e0 rnew by (simp add: partial_score_def)
      next
        assume "c \<noteq> ?cid \<and> (c, e) \<in> set ?d"
        then show ?thesis using ents rold by auto
      qed
    qed
    show ?thesis unfolding step k' using dist keys ink all by auto
  qed
qed

lemma rrf_general:
  assumes dd: "distinct (map chunk_id dense)" and ds: "distinct (map chunk_id sparse)"
  shows "set (map chunk_id (reciprocal_rank_fusion dense sparse dw sw k))
           = set (map chunk_id dense) \<union> set (map chunk_id sparse)
       \<and> distinct (map chunk_id (reciprocal_rank_fusion dense sparse dw sw k))
       \<and> sorted_wrt (\<lambda>a b. score a \<ge> score b) (reciprocal_rank_fusion dense sparse dw sw k)
       \<and> (\<forall>f \<in> set (reciprocal_rank_fusion dense sparse dw sw k).
             dense_rank f = rank_of (chunk_id f) dense
           \<and> sparse_rank f = rank_of (chunk_id f) sparse
           \<and> score f = partial_score dw k (dense_rank f) + partial_score sw k (sparse_rank f))"
proof -
  define D where "D = foldl (add_dense dw k) [] (enumerate_from 1 dense)"
  define S where "S = foldl (add_sparse sw k) D (enumerate_from 1 sparse)"
  have out: "reciprocal_rank_fusion dense sparse dw sw k = sorted_reverse score (map snd S)"
    by (simp add: reciprocal_rank_fusion_def D_def S_def)
  from dense_phase[OF dd, of dw k]
  have keysD: "map fst D = map chunk_id dense"
    and entsD: "\<forall>(c, e) \<in> set D. chunk_id e = c \<and> dense_rank e = rank_of c dense
         \<and> sparse_rank e = None \<and> score e = partial_score dw k (rank_of c dense)"
    unfolding D_def by blast+
  have distD: "distinct (map fst D)" using keysD dd by simp
  have outside: "\<forall>c. c \<notin> set (map fst D) \<longrightarrow>
      rank_of c dense = None \<and> partial_score dw k (rank_of c dense) = 0"
    unfolding keysD by (auto simp: partial_score_def rank_of_None[THEN iffD2])
  from sparse_phase[OF ds distD entsD outside, of sw k]
  have distS: "distinct (map fst S)"
    and keysS: "set (map fst S) = set (map chunk_id dense) \<union> set (map chunk_id sparse)"
    and entsS: "\<forall>(c, e) \<in> set S. chunk_id e = c \<and> dense_rank e = rank_of c dense
         \<and> sparse_rank e = rank_of c sparse
         \<and> score e = partial_score dw k (rank_of c dense) + partial_score sw k (rank_of c sparse)"
    unfolding S_def keysD by blast+
  have ids: "map chunk_id (map snd S) = map fst S"
    using entsS by (auto simp: case_prod_beta)
  have "mset (map chunk_id (sorted_reverse score (map snd S))) = mset (map fst S)"
    using ids by (metis mset_map mset_sorted_reverse)
  then have m: "set (map chunk_id (sorted_reverse score (map snd S))) = set (map fst S)"
    and d: "distinct (map chunk_id (sorted_reverse score (map snd S)))"
    using distS by (metis set_mset_mset, metis mset_eq_imp_distinct_iff)
  have e: "dense_rank f = rank_of (chunk_id f) dense
           \<and> sparse_rank f = rank_of (chunk_id f) sparse
           \<and> score f = partial_score dw k (dense_rank f) + partial_score sw k (sparse_rank f)"
    if "f \<in> set (sorted_reverse score (map snd S))" for f
  proof -
    from that obtain c where "(c, f) \<in> set S" by (auto simp: set_sorted_reverse)
    with entsS show ?thesis by auto
  qed
  show ?thesis unfolding out using m d e keysS sorted_reverse_desc[of score "map snd S"]
    by blast
qed

lemma rrf_example:
  "reciprocal_rank_fusion [example_hit ''A'', example_hit ''B'', example_hit ''C'']
        [example_hit ''B'', example_hit ''A'', example_hit ''D''] 0.7 0.3 60
   = [\<lparr> chunk_id = ''A'', content = ''A'', metadata = (), score = 0.7 / 61 + 0.3 / 62,
         dense_rank = Some 1, sparse_rank = Some 2, dense_score = Some 0, sparse_score = Some 0 \<rparr>,
      \<lparr> chunk_id = ''B'', content = ''B'', metadata = (), score = 0.7 / 62 + 0.3 / 61,
         dense_rank = Some 2, sparse_rank = Some 1, dense_score = Some 0, sparse_score = Some 0 \<rparr>,
      \<lparr> chunk_id = ''C'', content = ''C'', metadata = (), score = 0.7 / 63,
         dense_rank = Some 3, sparse_rank = None, dense_score = Some 0, sparse_score = None \<rparr>,
      \<lparr> chunk_id = ''D'', content = ''D'', metadata = (), score = 0.3 / 63,
         dense_rank = None, sparse_rank = Some 3, dense_score = None, sparse_score = Some 0 \<rparr>]"
  by (simp add: reciprocal_rank_fusion_def enumerate_from_def add_dense_def add_sparse_def
      dense_entry_def sparse_entry_def example_hit_def get_score_def sorted_reverse_def
      upt_rec[of 1] upt_rec[of 2] upt_rec[of 3] numeral_2_eq_2 numeral_3_eq_3)

lemma rank_of_Some:
  "rank_of c xs = Some r \<Longrightarrow> 1 \<le> r \<and> r \<le> length xs \<and> chunk_id (xs ! (r - 1)) = c"
proof (induction xs arbitrary: r)
  case Nil
  then show ?case by simp
next
  case (Cons x xs)
  show ?case
  proof (cases "chunk_id x = c")
    case True
    with Cons.prems show ?thesis by simp
  next
    case False
    with Cons.prems obtain r' where r': "rank_of c xs = Some r'" "r = Suc r'" by auto
    from Cons.IH[OF r'(1)] r'(2) show ?thesis by (cases r') auto
  qed
qed

text \<open>
  Claim C1 fails when a chunk id occurs twice within a list, and differently for the
  two lists: the dense loop assigns the entry anew, so of the two hits \<open>A\<close> only the one
  at rank 2 counts (\<open>0.7 / 62\<close>), while the sparse loop adds to the entry, so \<open>B\<close>, which
  is in the sparse list only, gets the sum \<open>0.3 / 61 + 0.3 / 62\<close> of two partial scores.
\<close>

theorem rrf_duplicate_chunk_ids:
  "reciprocal_rank_fusion [example_hit ''A'', example_hit ''A'']
        [example_hit ''B'', example_hit ''B''] 0.7 0.3 60
   = [\<lparr> chunk_id = ''A'', content = ''A'', metadata = (), score = 0.7 / 62,
         dense_rank = Some 2, sparse_rank = None, dense_score = Some 0, sparse_score = None \<rparr>,
      \<lparr> chunk_id = ''B'', content = ''B'', metadata = (), score = 0.3 / 61 + 0.3 / 62,
         dense_rank = None, sparse_rank = Some 2, dense_score = None, sparse_score = Some 0 \<rparr>]"
  by (simp add: reciprocal_rank_fusion_def enumerate_from_def add_dense_def add_sparse_def
      dense_entry_def sparse_entry_def example_hit_def get_score_def sorted_reverse_def
      upt_rec[of 1] upt_rec[of 2] upt_rec[of 3] numeral_2_eq_2 numeral_3_eq_3)

text \<open>
  Claim C1 as amended.  For every pair of ranked hit lists in which no chunk id occurs
  twice within a list, and for all weights, the fusion returns one entry for each chunk
  id of the two lists, in descending order of fused score.  The \<open>dense_rank\<close> of an
  entry is the 1-based position of its chunk id in the dense list and null when the
  chunk id is not there, and likewise \<open>sparse_rank\<close>; the fused score is the sum of the
  partial scores \<open>weight / (60 + rank)\<close> over the lists that contain the chunk id.  With
  dense ranks \<open>[A, B, C]\<close>, sparse ranks \<open>[B, A, D]\<close> and weights 0.7 and 0.3 the result
  is \<open>A\<close> with \<open>0.7 / 61 + 0.3 / 62\<close>, \<open>B\<close> with \<open>0.7 / 62 + 0.3 / 61\<close>, \<open>C\<close> with
  \<open>0.7 / 63\<close> and \<open>D\<close> with \<open>0.3 / 63\<close>, in this order.
\<close>

theorem rrf_scores:
  assumes "distinct (map chunk_id dense)" and "distinct (map chunk_id sparse)"
  shows "set (map chunk_id (reciprocal_rank_fusion dense sparse dw sw 60))
           = set (map chunk_id dense) \<union> set (map chunk_id sparse)
       \<and> distinct (map chunk_id (reciprocal_rank_fusion dense sparse dw sw 60))
       \<and> sorted_wrt (\<lambda>a b. score a \<ge> score b) (reciprocal_rank_fusion dense sparse dw sw 60)
       \<and> (\<forall>f \<in> set (reciprocal_rank_fusion dense sparse dw sw 60).
             (case dense_rank f of
                None \<Rightarrow> chunk_id f \<notin> set (map chunk_id dense)
              | Some r \<Rightarrow> 1 \<le> r \<and> r \<le> length dense \<and> chunk_id (dense ! (r - 1)) = chunk_id f)
           \<and> (case sparse_rank f of
                None \<Rightarrow> chunk_id f \<notin> set (map chunk_id sparse)
              | Some r \<Rightarrow> 1 \<le> r \<and> r \<le> length sparse \<and> chunk_id (sparse ! (r - 1)) = chunk_id f)
           \<and> score f = (case dense_rank f of None \<Rightarrow> 0 | Some r \<Rightarrow> dw / real (60 + r))
                     + (case sparse_rank f of None \<Rightarrow> 0 | Some r \<Rightarrow> sw / real (60 + r)))
       \<and> reciprocal_rank_fusion [example_hit ''A'', example_hit ''B'', example_hit ''C'']
            [example_hit ''B'', example_hit ''A'', example_hit ''D''] 0.7 0.3 60
          = [\<lparr> chunk_id = ''A'', content = ''A'', metadata = (), score = 0.7 / 61 + 0.3 / 62,
                dense_rank = Some 1, sparse_rank = Some 2, dense_score = Some 0, sparse_score = Some 0 \<rparr>,
             \<lparr> chunk_id = ''B'', content = ''B'', metadata = (), score = 0.7 / 62 + 0.3 / 61,
                dense_rank = Some 2, sparse_rank = Some 1, dense_score = Some 0, sparse_score = Some 0 \<rparr>,
             \<lparr> chunk_id = ''C'', content = ''C'', metadata = (), score = 0.7 / 63,
                dense_rank = Some 3, sparse_rank = None, dense_score = Some 0, sparse_score = None \<rparr>,
             \<lparr> chunk_id = ''D'', content = ''D'', metadata = (), score = 0.3 / 63,
                dense_rank = None, sparse_rank = Some 3, dense_score = None, sparse_score = Some 0 \<rparr>]"
proof -
  let ?out = "reciprocal_rank_fusion dense sparse dw sw 60"
  note g = rrf_general[OF assms, of dw sw 60]
  have e: "(case dense_rank f of
                None \<Rightarrow> chunk_id f \<notin> set (map chunk_id dense)
              | Some r \<Rightarrow> 1 \<le> r \<and> r \<le> length dense \<and> chunk_id (dense ! (r - 1)) = chunk_id f)
           \<and> (case sparse_rank f of
                None \<Rightarrow> chunk_id f \<notin> set (map chunk_id sparse)
              | Some r \<Rightarrow> 1 \<le> r \<and> r \<le> length sparse \<and> chunk_id (sparse ! (r - 1)) = chunk_id f)
           \<and> score f = (case dense_rank f of None \<Rightarrow> 0 | Some r \<Rightarrow> dw / real (60 + r))
                     + (case sparse_rank f of None \<Rightarrow> 0 | Some r \<Rightarrow> sw / real (60 + r))"
    if f: "f \<in> set ?out" for f
  proof -
    from g f have d: "dense_rank f = rank_of (chunk_id f) dense"
      and s: "sparse_rank f = rank_of (chunk_id f) sparse"
      and sc: "score f = partial_score dw 60 (dense_rank f) + partial_score sw 60 (sparse_rank f)"
      by blast+
    have d': "(case dense_rank f of
                None \<Rightarrow> chunk_id f \<notin> set (map chunk_id dense)
              | Some r \<Rightarrow> 1 \<le> r \<and> r \<le> length dense \<and> chunk_id (dense ! (r - 1)) = chunk_id f)"
      using rank_of_None[of "chunk_id f" dense] rank_of_Some[of "chunk_id f" dense]
      unfolding d by (cases "rank_of (chunk_id f) dense") auto
    have s': "(case sparse_rank f of
                None \<Rightarrow> chunk_id f \<notin> set (map chunk_id sparse)
              | Some r \<Rightarrow> 1 \<le> r \<and> r \<le> length sparse \<and> chunk_id (sparse ! (r - 1)) = chunk_id f)"
      using rank_of_None[of "chunk_id f" sparse] rank_of_Some[of "chunk_id f" sparse]
      unfolding s by (cases "rank_of (chunk_id f) sparse") auto
    from sc have sc': "score f = (case dense_rank f of None \<Rightarrow> 0 | Some r \<Rightarrow> dw / real (60 + r))
                     + (case sparse_rank f of None \<Rightarrow> 0 | Some r \<Rightarrow> sw / real (60 + r))"
      by (simp add: partial_score_def)
    from d' s' sc' show ?thesis by blast
  qed
  from g e rrf_example show ?thesis by blast
qed

theorem rrf_scores_witness:
  "distinct (map chunk_id [example_hit ''A'', example_hit ''B'', example_hit ''C''])
   \<and> distinct (map chunk_id [example_hit ''B'', example_hit ''A'', example_hit ''D''])
   \<and> map chunk_id (reciprocal_rank_fusion [example_hit ''A'', example_hit ''B'', example_hit ''C'']
            [example_hit ''B'', example_hit ''A'', example_hit ''D''] 0.7 0.3 60)
      = [''A'', ''B'', ''C'', ''D'']
   \<and> map score (reciprocal_rank_fusion [example_hit ''A'', example_hit ''B'', example_hit ''C'']
            [example_hit ''B'', example_hit ''A'', example_hit ''D''] 0.7 0.3 60)
      = [0.7 / 61 + 0.3 / 62, 0.7 / 62 + 0.3 / 61, 0.7 / 63, 0.3 / 63]"
  using rrf_scores[of "[example_hit ''A'', example_hit ''B'', example_hit ''C'']"
                      "[example_hit ''B'', example_hit ''A'', example_hit ''D'']" "0.7" "0.3"]
  by (simp add: example_hit_def)

end
